theory Spec2Isabelle
  imports Main "HOL-Library.Sublist"
begin

section \<open>Python values used by the Athena adapter\<close>

text \<open>
  Strings are lists of 8-bit characters, Python's unbounded integers are \<open>int\<close>, a raised
  exception is the left summand of a sum type.
\<close>

datatype error = ValueError string | AttributeError string | UnsupportedType string

text \<open>\<open>str(n)\<close> for a Python integer: decimal digits, with a leading minus sign.\<close>

definition digit_char :: "nat \<Rightarrow> char" where
  "digit_char d = ''0123456789'' ! d"

fun str_nat :: "nat \<Rightarrow> string" where
  "str_nat n = (if n < 10 then [digit_char n] else str_nat (n div 10) @ [digit_char (n mod 10)])"

declare str_nat.simps [simp del]

definition str_int :: "int \<Rightarrow> string" where
  "str_int i = (if i < 0 then CHR ''-'' # str_nat (nat (- i)) else str_nat (nat i))"

text \<open>\<open>int(s)\<close> for a string of decimal digits, as the digit groups of the type patterns are.\<close>

definition is_digit :: "char \<Rightarrow> bool" where
  "is_digit c = (c \<in> set ''0123456789'')"

definition digit_val :: "char \<Rightarrow> int" where
  "digit_val c = int (length (takeWhile (\<lambda>d. d \<noteq> c) ''0123456789''))"

definition int_of_digits :: "string \<Rightarrow> int" where
  "int_of_digits s = foldl (\<lambda>a c. 10 * a + digit_val c) 0 s"

text \<open>\<open>sep.join(xs)\<close>.\<close>

fun join :: "string \<Rightarrow> string list \<Rightarrow> string" where
  "join sep [] = []"
| "join sep [x] = x"
| "join sep (x # y # ys) = x @ sep @ join sep (y # ys)"

text \<open>\<open>s.split(c)\<close> for a one-character separator: never the empty list.\<close>

fun split_on :: "char \<Rightarrow> string \<Rightarrow> string list" where
  "split_on c [] = [[]]"
| "split_on c (x # xs) =
     (if x = c then [] # split_on c xs
      else (case split_on c xs of [] \<Rightarrow> [[x]] | w # ws \<Rightarrow> (x # w) # ws))"

text \<open>
  \<open>s.lower()\<close> on the letters that matter to a comparison with an ASCII keyword: among
  8-bit characters only \<open>A\<close> .. \<open>Z\<close> lower-case to an ASCII letter.
\<close>

definition lower_char :: "char \<Rightarrow> char" where
  "lower_char c =
     (case map_of (zip ''ABCDEFGHIJKLMNOPQRSTUVWXYZ'' ''abcdefghijklmnopqrstuvwxyz'') c of
        None \<Rightarrow> c
      | Some l \<Rightarrow> l)"

definition lower :: "string \<Rightarrow> string" where
  "lower s = map lower_char s"

section \<open>Constants imported from \<open>data_diff.databases.base\<close>\<close>

text \<open>
  The adapter imports four integer constants whose values are fixed outside it; the
  functions below take them as a parameter.
\<close>

record base_constants =
  MD5_HEXDIGITS :: int
  CHECKSUM_HEXDIGITS :: int
  CHECKSUM_OFFSET :: int
  TIMESTAMP_PRECISION_POS :: int

section \<open>Column types and \<open>Dialect.parse_type\<close>\<close>

text \<open>
  The column types the Athena dialect builds. \<open>Timestamp\<close> and \<open>TimestampTZ\<close> carry
  \<open>precision\<close> and \<open>rounds\<close>, \<open>Decimal\<close> its scale, \<open>Array\<close> its item type, and
  \<open>Struct\<close> the \<open>fields\<close> value that \<open>parse_type\<close> stores in it: a list of lists of
  strings.
\<close>

datatype coltype =
    Timestamp int bool
  | TimestampTZ int bool
  | Integer
  | Float
  | Decimal int
  | Text
  | Boolean
  | JSON
  | Array coltype
  | Struct "string list list"

text \<open>
  \<open>RawColumnInfo\<close>: the columns that \<open>select_table_schema\<close> asks the engine for.
\<close>

record raw_column_info =
  column_name :: string
  data_type :: string
  datetime_precision :: "int option"
  numeric_precision :: "int option"
  numeric_scale :: "int option"

type_synonym DbPath = "string list"

definition ROUNDS_ON_PREC_LOSS :: bool where
  "ROUNDS_ON_PREC_LOSS = True"

subsection \<open>The type patterns\<close>

text \<open>
  Modelled from the spec: \<open>match_regexps\<close> (\<open>data_diff/utils.py\<close> is not among the
  sources). Parsing is pattern-based: each pattern of a dictionary is tried, in order,
  against the whole type string, and a match gives its groups. Every pattern of
  \<open>parse_type\<close> is a literal prefix, one or two groups and a literal suffix;
  \<open>between pre suf s\<close> is the text of \<open>s\<close> between the two literals.
\<close>

definition between :: "string \<Rightarrow> string \<Rightarrow> string \<Rightarrow> string option" where
  "between pre suf s =
     (if prefix pre s \<and> suffix suf (drop (length pre) s)
      then Some (take (length s - length pre - length suf) (drop (length pre) s))
      else None)"

text \<open>The group \<open>(\<bsol>d)\<close>: one digit.\<close>

definition one_digit :: "string option \<Rightarrow> int option" where
  "one_digit g = (case g of Some [d] \<Rightarrow> if is_digit d then Some (digit_val d) else None | _ \<Rightarrow> None)"

text \<open>The group \<open>(\<bsol>d+)\<close>: one digit or more.\<close>

definition digits :: "string \<Rightarrow> bool" where
  "digits g = (g \<noteq> [] \<and> list_all is_digit g)"

text \<open>The group \<open>(.+)\<close>: one character or more, none of them a line break.\<close>

definition any_text :: "string \<Rightarrow> bool" where
  "any_text g = (g \<noteq> [] \<and> CHR 10 \<notin> set g)"

text \<open>\<^verbatim>\<open>timestamp\((\d)\)\<close>\<close>

definition match_timestamp :: "string \<Rightarrow> int option" where
  "match_timestamp s = one_digit (between ''timestamp('' '')'' s)"

text \<open>\<^verbatim>\<open>timestamp\((\d)\) with time zone\<close>\<close>

definition match_timestamp_tz :: "string \<Rightarrow> int option" where
  "match_timestamp_tz s = one_digit (between ''timestamp('' '') with time zone'' s)"

text \<open>\<^verbatim>\<open>decimal\((\d+),(\d+)\)\<close>: the two groups, through \<open>int\<close>.\<close>

definition match_decimal :: "string \<Rightarrow> (int \<times> int) option" where
  "match_decimal s =
     (case between ''decimal('' '')'' s of
        None \<Rightarrow> None
      | Some g \<Rightarrow>
          (let p = takeWhile (\<lambda>c. c \<noteq> CHR '','') g; r = dropWhile (\<lambda>c. c \<noteq> CHR '','') g
           in if digits p \<and> r \<noteq> [] \<and> digits (tl r)
              then Some (int_of_digits p, int_of_digits (tl r)) else None))"

text \<open>\<^verbatim>\<open>array\((.+)\)\<close>\<close>

definition match_array :: "string \<Rightarrow> string option" where
  "match_array s =
     (case between ''array('' '')'' s of
        None \<Rightarrow> None
      | Some g \<Rightarrow> if any_text g then Some g else None)"

text \<open>\<^verbatim>\<open>struct<(.+)>\<close>\<close>

definition match_struct :: "string \<Rightarrow> string option" where
  "match_struct s =
     (case between ''struct<'' ''>'' s of
        None \<Rightarrow> None
      | Some g \<Rightarrow> if any_text g then Some g else None)"

text \<open>\<^verbatim>\<open>varchar\((\d+)\)\<close> and \<^verbatim>\<open>char\((\d+)\)\<close>\<close>

definition match_string :: "string \<Rightarrow> string option" where
  "match_string s =
     (case between ''varchar('' '')'' s of
        Some g \<Rightarrow> if digits g then Some g else None
      | None \<Rightarrow>
          (case between ''char('' '')'' s of
             Some g \<Rightarrow> if digits g then Some g else None
           | None \<Rightarrow> None))"

subsection \<open>\<open>parse_type\<close>\<close>

text \<open>
  The pattern groups are tried in the order of the source; the first that matches
  returns. An array parses its item type with \<open>parse_type\<close> itself, an exception of the
  inner call propagating; a struct stores the pieces of its text. When no pattern matches,
  the base dialect's \<open>parse_type\<close> decides: it is the parameter \<open>super\<close>, which receives
  the dialect's \<open>ROUNDS_ON_PREC_LOSS\<close>.
\<close>

function parse_type ::
  "(bool \<Rightarrow> DbPath \<Rightarrow> raw_column_info \<Rightarrow> error + coltype)
     \<Rightarrow> DbPath \<Rightarrow> raw_column_info \<Rightarrow> error + coltype" where
  "parse_type super table_path info =
     (case match_timestamp (data_type info) of
        Some precision \<Rightarrow> Inr (Timestamp precision ROUNDS_ON_PREC_LOSS)
      | None \<Rightarrow>
     (case match_timestamp_tz (data_type info) of
        Some precision \<Rightarrow> Inr (TimestampTZ precision ROUNDS_ON_PREC_LOSS)
      | None \<Rightarrow>
     (case match_decimal (data_type info) of
        Some (prec, scale) \<Rightarrow> Inr (Decimal scale)
      | None \<Rightarrow>
     (case match_array (data_type info) of
        Some g \<Rightarrow>
          (case parse_type super table_path (info\<lparr>data_type := g\<rparr>) of
             Inl e \<Rightarrow> Inl e
           | Inr item_type \<Rightarrow> Inr (Array item_type))
      | None \<Rightarrow>
     (case match_struct (data_type info) of
        Some g \<Rightarrow> Inr (Struct (map (split_on CHR '':'') (split_on CHR '','' g)))
      | None \<Rightarrow>
     (case match_string (data_type info) of
        Some g \<Rightarrow> Inr Text
      | None \<Rightarrow> super ROUNDS_ON_PREC_LOSS table_path info))))))"
  by pat_completeness auto
termination
proof (relation "measure (\<lambda>(super, table_path, info). length (data_type info))")
  show "wf (measure (\<lambda>(super, table_path, info). length (data_type info)))"
    by simp
next
  fix super :: "bool \<Rightarrow> DbPath \<Rightarrow> raw_column_info \<Rightarrow> error + coltype"
  fix table_path :: DbPath and info :: raw_column_info and g
  assume "match_array (data_type info) = Some g"
  then have "length g < length (data_type info)"
    by (auto simp: match_array_def between_def prefix_def split: option.splits if_splits)
  then show "((super, table_path, info\<lparr>data_type := g\<rparr>), (super, table_path, info))
               \<in> measure (\<lambda>(super, table_path, info). length (data_type info))"
    by simp
qed

declare parse_type.simps [simp del]

subsection \<open>A base dialect\<close>

text \<open>
  The table \<open>TYPE_CLASSES\<close> of the dialect: native type names and the class each stands
  for.
\<close>

datatype col_class =
  cls_TimestampTZ | cls_Timestamp | cls_Integer | cls_Float | cls_Decimal | cls_Text
  | cls_Boolean | cls_JSON | cls_Array | cls_Struct

definition TYPE_CLASSES :: "(string \<times> col_class) list" where
  "TYPE_CLASSES =
     [(''timestamp with time zone'', cls_TimestampTZ),
      (''timestamp without time zone'', cls_Timestamp),
      (''timestamp'', cls_Timestamp),
      (''integer'', cls_Integer),
      (''bigint'', cls_Integer),
      (''real'', cls_Float),
      (''double'', cls_Float),
      (''decimal'', cls_Decimal),
      (''varchar'', cls_Text),
      (''string'', cls_Text),
      (''boolean'', cls_Boolean),
      (''json'', cls_JSON),
      (''array'', cls_Array),
      (''struct'', cls_Struct)]"

text \<open>
  Modelled from the spec: \<open>BaseDialect.parse_type\<close>, the method that \<open>super().parse_type\<close>
  reaches (\<open>data_diff/databases/base.py\<close> is not among the sources). By the dialect
  contract it looks the type name up, builds the column type from the declared precision
  hints and the dialect's \<open>rounds\<close> flag, and fails with \<open>UnsupportedType\<close> on an unknown
  name. A missing hint is read as \<open>0\<close>, and the bare names \<open>array\<close> and \<open>struct\<close>, which
  give no item type and no fields, are unsupported. The theorems about \<open>parse_type\<close> hold
  for every base method; this one instantiates them.
\<close>

definition hint :: "int option \<Rightarrow> int" where
  "hint h = (case h of None \<Rightarrow> 0 | Some n \<Rightarrow> n)"

definition base_parse_type :: "bool \<Rightarrow> DbPath \<Rightarrow> raw_column_info \<Rightarrow> error + coltype" where
  "base_parse_type rounds table_path info =
     (case map_of TYPE_CLASSES (data_type info) of
        None \<Rightarrow> Inl (UnsupportedType (data_type info))
      | Some cls_TimestampTZ \<Rightarrow> Inr (TimestampTZ (hint (datetime_precision info)) rounds)
      | Some cls_Timestamp \<Rightarrow> Inr (Timestamp (hint (datetime_precision info)) rounds)
      | Some cls_Integer \<Rightarrow> Inr Integer
      | Some cls_Float \<Rightarrow> Inr Float
      | Some cls_Decimal \<Rightarrow> Inr (Decimal (hint (numeric_scale info)))
      | Some cls_Text \<Rightarrow> Inr Text
      | Some cls_Boolean \<Rightarrow> Inr Boolean
      | Some cls_JSON \<Rightarrow> Inr JSON
      | Some cls_Array \<Rightarrow> Inl (UnsupportedType (data_type info))
      | Some cls_Struct \<Rightarrow> Inl (UnsupportedType (data_type info)))"


section \<open>Checksum and timestamp expressions\<close>

text \<open>\<open>Dialect.md5_as_int\<close>: the f-string, piece by piece.\<close>

definition md5_as_int :: "base_constants \<Rightarrow> string \<Rightarrow> string" where
  "md5_as_int k s =
     ''cast(from_base(substr(to_hex(md5(to_utf8('' @ s @ ''))), ''
       @ str_int (1 + MD5_HEXDIGITS k - CHECKSUM_HEXDIGITS k)
       @ ''), 16) as decimal(38, 0)) - '' @ str_int (CHECKSUM_OFFSET k)"

text \<open>
  \<open>Dialect.normalize_timestamp\<close>. It reads \<open>coltype.rounds\<close> and \<open>coltype.precision\<close>;
  a column type without a \<open>rounds\<close> attribute raises at the first of them.
\<close>

fun normalize_timestamp :: "base_constants \<Rightarrow> string \<Rightarrow> coltype \<Rightarrow> error + string" where
  "normalize_timestamp k value (Timestamp precision rounds) =
     (let s = (if rounds
               then ''date_format(cast('' @ value @ '' as timestamp(6)), '%Y-%m-%d %H:%i:%S.%f')''
               else ''date_format(cast('' @ value @ '' as timestamp(6)), '%Y-%m-%d %H:%i:%S.%f')'')
      in Inr (''RPAD(RPAD('' @ s @ '', '' @ str_int (TIMESTAMP_PRECISION_POS k + precision)
                @ '', '.'), '' @ str_int (TIMESTAMP_PRECISION_POS k + 6) @ '', '0')''))"
| "normalize_timestamp k value (TimestampTZ precision rounds) =
     (let s = (if rounds
               then ''date_format(cast('' @ value @ '' as timestamp(6)), '%Y-%m-%d %H:%i:%S.%f')''
               else ''date_format(cast('' @ value @ '' as timestamp(6)), '%Y-%m-%d %H:%i:%S.%f')'')
      in Inr (''RPAD(RPAD('' @ s @ '', '' @ str_int (TIMESTAMP_PRECISION_POS k + precision)
                @ '', '.'), '' @ str_int (TIMESTAMP_PRECISION_POS k + 6) @ '', '0')''))"
| "normalize_timestamp k value t = Inl (AttributeError ''rounds'')"

subsection \<open>The expressions in the words of the specification\<close>

text \<open>
  SQL text built from named pieces: a function call, a cast, a quoted literal. The
  expressions that the dialect emits are compared with these.
\<close>

definition sql_call :: "string \<Rightarrow> string list \<Rightarrow> string" where
  "sql_call f args = f @ ''('' @ join '', '' args @ '')''"

definition sql_cast :: "string \<Rightarrow> string \<Rightarrow> string" where
  "sql_cast e ty = ''cast('' @ e @ '' as '' @ ty @ '')''"

definition sql_literal :: "string \<Rightarrow> string" where
  "sql_literal s = [CHR 39] @ s @ [CHR 39]"

text \<open>The hex digest of the MD5 of the UTF-8 bytes of an expression.\<close>

definition md5_hex_expr :: "string \<Rightarrow> string" where
  "md5_hex_expr s = sql_call ''to_hex'' [sql_call ''md5'' [sql_call ''to_utf8'' [s]]]"

text \<open>A value formatted as a timestamp with six sub-second digits.\<close>

definition micros_expr :: "string \<Rightarrow> string" where
  "micros_expr value =
     sql_call ''date_format''
       [sql_cast value ''timestamp(6)'', sql_literal ''%Y-%m-%d %H:%i:%S.%f'']"

definition rpad_expr :: "string \<Rightarrow> int \<Rightarrow> string \<Rightarrow> string" where
  "rpad_expr e n pad = sql_call ''RPAD'' [e, str_int n, sql_literal pad]"

subsection \<open>What the engine computes\<close>

text \<open>
  The two string functions of the engine that the statements about widths rest on, as the
  engine documents them. \<open>substr(s, start)\<close> is the rest of \<open>s\<close> from the 1-based
  position \<open>start\<close> (a negative position counts from the end). \<open>rpad(s, size, pad)\<close> has
  exactly \<open>size\<close> characters: \<open>s\<close> cut to \<open>size\<close>, or \<open>s\<close> followed by repetitions of
  \<open>pad\<close>.
\<close>

definition sql_substr :: "string \<Rightarrow> int \<Rightarrow> string" where
  "sql_substr s start =
     (if 0 < start then drop (nat (start - 1)) s
      else if start < 0 \<and> nat (- start) \<le> length s then drop (length s - nat (- start)) s
      else [])"

definition sql_rpad :: "string \<Rightarrow> nat \<Rightarrow> string \<Rightarrow> string" where
  "sql_rpad s n pad =
     (if n \<le> length s then take n s
      else s @ take (n - length s) (concat (replicate (n - length s) pad)))"

section \<open>Table paths: \<open>Athena._normalize_table_path\<close>\<close>

text \<open>
  The part of the \<open>Athena\<close> database object that path normalization reads: its \<open>name\<close>,
  its rendering \<open>str(self)\<close> (both only appear in the error message) and the
  \<open>default_schema\<close> set by the constructor.
\<close>

record athena =
  name :: string
  self_str :: string
  default_schema :: string

definition bad_table_path :: "athena \<Rightarrow> DbPath \<Rightarrow> error" where
  "bad_table_path db path =
     ValueError (name db @ '': Bad table path for '' @ self_str db @ '': '' @ [CHR 39]
       @ join ''.'' path @ [CHR 39] @ ''. Expected form: schema.table'')"

definition normalize_table_path :: "athena \<Rightarrow> DbPath \<Rightarrow> error + DbPath" where
  "normalize_table_path db path =
     (if length path = 1 then Inr [default_schema db, path ! 0]
      else if length path = 2 then Inr path
      else if length path > 2 then Inr [path ! 1, path ! 2]
      else Inl (bad_table_path db path))"


section \<open>Running a statement: \<open>query_cursor\<close>\<close>

text \<open>
  A database cursor: the calls made on it so far and the rows of the last statement that
  have not been fetched. The engine is a function from a statement to its rows.
\<close>

datatype call = Execute string | Fetchall | Fetchone

record 'r cursor =
  calls :: "call list"
  pending :: "'r list"

definition execute :: "(string \<Rightarrow> 'r list) \<Rightarrow> 'r cursor \<Rightarrow> string \<Rightarrow> 'r cursor" where
  "execute engine c sql_code = c\<lparr>calls := calls c @ [Execute sql_code], pending := engine sql_code\<rparr>"

definition fetchall :: "'r cursor \<Rightarrow> 'r list \<times> 'r cursor" where
  "fetchall c = (pending c, c\<lparr>calls := calls c @ [Fetchall], pending := []\<rparr>)"

definition fetchone :: "'r cursor \<Rightarrow> 'r option \<times> 'r cursor" where
  "fetchone c =
     (case pending c of
        [] \<Rightarrow> (None, c\<lparr>calls := calls c @ [Fetchone]\<rparr>)
      | r # rs \<Rightarrow> (Some r, c\<lparr>calls := calls c @ [Fetchone], pending := rs\<rparr>))"

text \<open>What \<open>query_cursor\<close> returns: all rows, one row (or \<open>None\<close>), or nothing.\<close>

datatype 'r fetched = Rows "'r list" | Row "'r option" | Nothing

text \<open>
  \<^verbatim>\<open>re.match(r"(insert|create|truncate|drop|explain)", sql_code, re.IGNORECASE)\<close>: one of the
  keywords at the very start of the statement, in any case.
\<close>

definition drained_keywords :: "string list" where
  "drained_keywords = [''insert'', ''create'', ''truncate'', ''drop'', ''explain'']"

definition match_keyword :: "string \<Rightarrow> bool" where
  "match_keyword sql_code = list_ex (\<lambda>kw. prefix kw (lower sql_code)) drained_keywords"

definition query_cursor ::
  "(string \<Rightarrow> 'r list) \<Rightarrow> 'r cursor \<Rightarrow> string \<Rightarrow> 'r fetched \<times> 'r cursor" where
  "query_cursor engine c sql_code =
     (let c1 = execute engine c sql_code in
      if prefix ''select'' (lower sql_code)
      then (case fetchall c1 of (rows, c2) \<Rightarrow> (Rows rows, c2))
      else if match_keyword sql_code
      then (case fetchone c1 of (row, c2) \<Rightarrow> (Row row, c2))
      else (Nothing, c1))"

section \<open>The report: \<open>jsonify\<close>\<close>

text \<open>
  Inputs of the report projector, as the test of \<open>jsonify\<close> builds them. A cell of a diff
  row is \<open>None\<close>, a boolean, an integer or a string. A \<open>TableSegment\<close> is read for its
  \<open>table_path\<close> and \<open>key_columns\<close> only; a \<open>SegmentInfo\<close> carries the two segments, the
  names of \<open>diff_schema\<close> (the test pairs each name with a type that the report does not
  show) and the rows \<open>diff\<close>; the \<open>DiffResultWrapper\<close> holds the \<open>SegmentInfo\<close> of its
  \<open>InfoTree\<close>, its own row sequence and its statistics.
\<close>

datatype cell = CNone | CBool bool | CInt int | CStr string

record table_segment =
  table_path :: DbPath
  key_columns :: "string list"

record segment_info =
  tables :: "table_segment \<times> table_segment"
  diff_schema :: "string list"
  diff :: "cell list list"

record diff_result_wrapper =
  info_tree :: segment_info
  wrapper_diff :: "cell list list"
  stats :: "(string \<times> string) list"

text \<open>A JSON document; an object keeps its members in order.\<close>

datatype json =
    JNull
  | JBool bool
  | JInt int
  | JStr string
  | JList "json list"
  | JObj "(string \<times> json) list"

text \<open>The member of a document at a path of keys, \<open>None\<close> when a key is absent.\<close>

fun json_get :: "json \<Rightarrow> string list \<Rightarrow> json option" where
  "json_get j [] = Some j"
| "json_get (JObj members) (key # keys) =
     (case map_of members key of None \<Rightarrow> None | Some v \<Rightarrow> json_get v keys)"
| "json_get j (key # keys) = None"

fun cell_json :: "cell \<Rightarrow> json" where
  "cell_json CNone = JNull"
| "cell_json (CBool b) = JBool b"
| "cell_json (CInt i) = JInt i"
| "cell_json (CStr s) = JStr s"

text \<open>Python's truth value of a cell.\<close>

fun truthy :: "cell \<Rightarrow> bool" where
  "truthy CNone = False"
| "truthy (CBool b) = b"
| "truthy (CInt i) = (i \<noteq> 0)"
| "truthy (CStr s) = (s \<noteq> [])"

text \<open>
  Modelled from the spec: \<open>jsonify\<close> and its helpers (\<open>data_diff/format.py\<close> is not among
  the sources; only its test is). The report format of the specification: \<open>version\<close>,
  \<open>status\<close>, \<open>result\<close>, \<open>model\<close>, the two table paths, under \<open>rows.exclusive\<close> one list
  per side of the rows found only there, each column with \<open>isPK\<close> and \<open>value\<close>, under
  \<open>rows.diff\<close> the rows found on both sides, each column with \<open>isPK\<close>, \<open>dataset1\<close>,
  \<open>dataset2\<close> and \<open>isDiff\<close>, and \<open>summary\<close> and \<open>columns\<close>, which are \<open>null\<close> when not
  computed. The result is \<open>different\<close> when one of the three lists has a row. The fields of
  a row are named as in the test: \<open>is_exclusive_a\<close>, \<open>is_exclusive_b\<close>, and for each
  column \<open>c\<close> the fields \<open>is_diff_c\<close>, \<open>c_a\<close> and \<open>c_b\<close>.
\<close>

definition field :: "string list \<Rightarrow> cell list \<Rightarrow> string \<Rightarrow> cell" where
  "field schema row f = (case map_of (zip schema row) f of None \<Rightarrow> CNone | Some v \<Rightarrow> v)"

definition columns :: "string list \<Rightarrow> string list" where
  "columns schema =
     List.map_filter
       (\<lambda>f. if f \<noteq> ''is_exclusive_a'' \<and> suffix ''_a'' f then Some (take (length f - 2) f)
            else None)
       schema"

definition jsonify_exclusive :: "string list \<Rightarrow> string list \<Rightarrow> string \<Rightarrow> cell list \<Rightarrow> json" where
  "jsonify_exclusive keys schema side row =
     JObj (map (\<lambda>c. (c, JObj [(''isPK'', JBool (c \<in> set keys)),
                               (''value'', cell_json (field schema row (c @ side)))]))
            (columns schema))"

definition jsonify_diff :: "string list \<Rightarrow> string list \<Rightarrow> cell list \<Rightarrow> json" where
  "jsonify_diff keys schema row =
     JObj (map (\<lambda>c. (c, JObj [(''isPK'', JBool (c \<in> set keys)),
                               (''dataset1'', cell_json (field schema row (c @ ''_a''))),
                               (''dataset2'', cell_json (field schema row (c @ ''_b''))),
                               (''isDiff'', JBool (truthy (field schema row (''is_diff_'' @ c))))]))
            (columns schema))"

definition exclusive_a :: "string list \<Rightarrow> cell list \<Rightarrow> bool" where
  "exclusive_a schema row = truthy (field schema row ''is_exclusive_a'')"

definition exclusive_b :: "string list \<Rightarrow> cell list \<Rightarrow> bool" where
  "exclusive_b schema row =
     (\<not> exclusive_a schema row \<and> truthy (field schema row ''is_exclusive_b''))"

definition in_both :: "string list \<Rightarrow> cell list \<Rightarrow> bool" where
  "in_both schema row =
     (\<not> exclusive_a schema row \<and> \<not> truthy (field schema row ''is_exclusive_b''))"

definition jsonify :: "diff_result_wrapper \<Rightarrow> string \<Rightarrow> json" where
  "jsonify d dbt_model =
     (let i = info_tree d;
          table1 = fst (tables i);
          table2 = snd (tables i);
          schema = diff_schema i;
          keys = key_columns table1;
          t1_exclusive_rows =
            map (jsonify_exclusive keys schema ''_a'') (filter (exclusive_a schema) (diff i));
          t2_exclusive_rows =
            map (jsonify_exclusive keys schema ''_b'') (filter (exclusive_b schema) (diff i));
          diff_rows = map (jsonify_diff keys schema) (filter (in_both schema) (diff i));
          is_identical = (t1_exclusive_rows = [] \<and> t2_exclusive_rows = [] \<and> diff_rows = [])
      in JObj
           [(''version'', JStr ''1.0.0''),
            (''status'', JStr ''success''),
            (''result'', JStr (if is_identical then ''identical'' else ''different'')),
            (''model'', JStr dbt_model),
            (''dataset1'', JList (map JStr (table_path table1))),
            (''dataset2'', JList (map JStr (table_path table2))),
            (''rows'',
               JObj [(''exclusive'',
                        JObj [(''dataset1'', JList t1_exclusive_rows),
                              (''dataset2'', JList t2_exclusive_rows)]),
                     (''diff'', JList diff_rows)]),
            (''summary'', JNull),
            (''columns'', JNull)])"

subsection \<open>The two diff results of the test\<close>

definition test_schema :: "string list" where
  "test_schema =
     [''is_exclusive_a'', ''is_exclusive_b'', ''is_diff_id'', ''is_diff_value'',
      ''id_a'', ''id_b'', ''value_a'', ''value_b'']"

definition test_tables :: "table_segment \<times> table_segment" where
  "test_tables =
     (\<lparr>table_path = [''db'', ''schema'', ''table1''], key_columns = [''id'']\<rparr>,
      \<lparr>table_path = [''db'', ''schema'', ''table2''], key_columns = [''id'']\<rparr>)"


definition test_no_difference :: diff_result_wrapper where
  "test_no_difference =
     \<lparr>info_tree = \<lparr>tables = test_tables, diff_schema = test_schema, diff = []\<rparr>,
      wrapper_diff = [],
      stats = []\<rparr>"


section \<open>Properties of the checksum expression\<close>

lemma concat_replicate_single: "concat (replicate n [c]) = replicate n c"
  by (induction n) simp_all

lemma sql_rpad_single:
  "sql_rpad s n [c] = (if n \<le> length s then take n s else s @ replicate (n - length s) c)"
  by (simp add: sql_rpad_def concat_replicate_single)

lemma length_sql_rpad_single: "length (sql_rpad s n [c]) = n"
  by (simp add: sql_rpad_single)

text \<open>
  C1. For every input expression \<open>s\<close>, \<open>md5_as_int\<close> emits the expression that takes the
  hex digest of the MD5 of the UTF-8 bytes of \<open>s\<close>, its substring from position
  \<open>1 + MD5_HEXDIGITS - CHECKSUM_HEXDIGITS\<close>, converts it from base 16, casts it to
  \<open>decimal(38, 0)\<close> and subtracts \<open>CHECKSUM_OFFSET\<close>. On a digest of \<open>MD5_HEXDIGITS\<close>
  digits that substring is the trailing \<open>CHECKSUM_HEXDIGITS\<close> digits.
\<close>

theorem md5_as_int_expr:
  "md5_as_int k s
     = sql_cast
         (sql_call ''from_base''
            [sql_call ''substr''
               [md5_hex_expr s, str_int (1 + MD5_HEXDIGITS k - CHECKSUM_HEXDIGITS k)],
             ''16''])
         ''decimal(38, 0)''
       @ '' - '' @ str_int (CHECKSUM_OFFSET k)
   \<and> (int (length digest) = MD5_HEXDIGITS k
        \<and> 0 \<le> CHECKSUM_HEXDIGITS k \<and> CHECKSUM_HEXDIGITS k \<le> MD5_HEXDIGITS k \<longrightarrow>
      sql_substr digest (1 + MD5_HEXDIGITS k - CHECKSUM_HEXDIGITS k)
        = drop (length digest - nat (CHECKSUM_HEXDIGITS k)) digest
      \<and> int (length (sql_substr digest (1 + MD5_HEXDIGITS k - CHECKSUM_HEXDIGITS k)))
        = CHECKSUM_HEXDIGITS k)"
proof (intro conjI impI)
  show "md5_as_int k s
     = sql_cast
         (sql_call ''from_base''
            [sql_call ''substr''
               [md5_hex_expr s, str_int (1 + MD5_HEXDIGITS k - CHECKSUM_HEXDIGITS k)],
             ''16''])
         ''decimal(38, 0)''
       @ '' - '' @ str_int (CHECKSUM_OFFSET k)"
    by (simp add: md5_as_int_def sql_cast_def sql_call_def md5_hex_expr_def)
next
  assume h: "int (length digest) = MD5_HEXDIGITS k
        \<and> 0 \<le> CHECKSUM_HEXDIGITS k \<and> CHECKSUM_HEXDIGITS k \<le> MD5_HEXDIGITS k"
  then have pos: "0 < 1 + MD5_HEXDIGITS k - CHECKSUM_HEXDIGITS k"
    by linarith
  from h have n: "nat (1 + MD5_HEXDIGITS k - CHECKSUM_HEXDIGITS k - 1)
                    = length digest - nat (CHECKSUM_HEXDIGITS k)"
    by linarith
  show eq: "sql_substr digest (1 + MD5_HEXDIGITS k - CHECKSUM_HEXDIGITS k)
        = drop (length digest - nat (CHECKSUM_HEXDIGITS k)) digest"
    using pos n by (simp add: sql_substr_def)
  from h have le: "nat (CHECKSUM_HEXDIGITS k) \<le> length digest"
    by linarith
  from h le show "int (length (sql_substr digest (1 + MD5_HEXDIGITS k - CHECKSUM_HEXDIGITS k)))
        = CHECKSUM_HEXDIGITS k"
    unfolding eq by simp
qed

theorem md5_as_int_expr_witness:
  "md5_as_int \<lparr>MD5_HEXDIGITS = 32, CHECKSUM_HEXDIGITS = 14,
                CHECKSUM_OFFSET = 36028797018963967, TIMESTAMP_PRECISION_POS = 20\<rparr> ''c''
     = ''cast(from_base(substr(to_hex(md5(to_utf8(c))), 19), 16) as decimal(38, 0)) - 36028797018963967''
   \<and> sql_substr ''d41d8cd98f00b204e9800998ecf8427e'' 19 = ''800998ecf8427e''
   \<and> length ''800998ecf8427e'' = 14"
  using md5_as_int_expr
          [where k = "\<lparr>MD5_HEXDIGITS = 32, CHECKSUM_HEXDIGITS = 14,
                CHECKSUM_OFFSET = 36028797018963967, TIMESTAMP_PRECISION_POS = 20\<rparr>"
             and s = "''c''" and digest = "''d41d8cd98f00b204e9800998ecf8427e''"]
  by (simp add: sql_cast_def sql_call_def md5_hex_expr_def str_int_def str_nat.simps digit_char_def)

section \<open>Properties of the timestamp expression\<close>

text \<open>
  C3. For every value expression and every temporal column type, \<open>normalize_timestamp\<close>
  returns the same expression whether the \<open>rounds\<close> flag of the column type is true or
  false: both branches of the conditional build the same text.
\<close>

theorem normalize_timestamp_ignores_rounds:
  "normalize_timestamp k value (Timestamp precision True)
     = normalize_timestamp k value (Timestamp precision False)
   \<and> normalize_timestamp k value (TimestampTZ precision True)
     = normalize_timestamp k value (TimestampTZ precision False)"
  by simp

text \<open>
  C2. For every temporal column type with precision \<open>p\<close>, \<open>normalize_timestamp\<close> emits
  the value formatted with six sub-second digits, right-padded with \<open>.\<close> to the length
  \<open>TIMESTAMP_PRECISION_POS + p\<close> and then with \<open>0\<close> to the length
  \<open>TIMESTAMP_PRECISION_POS + 6\<close>. Whatever \<open>p\<close> is, the padded string has
  \<open>TIMESTAMP_PRECISION_POS + 6\<close> characters; for \<open>p\<close> up to six it is the formatted string
  cut after \<open>p\<close> sub-second digits and filled with zeros to six.
\<close>

theorem normalize_timestamp_pads:
  "normalize_timestamp k value (Timestamp precision rounds)
     = Inr (rpad_expr (rpad_expr (micros_expr value) (TIMESTAMP_PRECISION_POS k + precision) ''.'')
              (TIMESTAMP_PRECISION_POS k + 6) ''0'')
   \<and> normalize_timestamp k value (TimestampTZ precision rounds)
     = Inr (rpad_expr (rpad_expr (micros_expr value) (TIMESTAMP_PRECISION_POS k + precision) ''.'')
              (TIMESTAMP_PRECISION_POS k + 6) ''0'')
   \<and> length (sql_rpad (sql_rpad formatted (nat (TIMESTAMP_PRECISION_POS k + precision)) ''.'')
               (nat (TIMESTAMP_PRECISION_POS k + 6)) ''0'')
     = nat (TIMESTAMP_PRECISION_POS k + 6)
   \<and> (0 \<le> TIMESTAMP_PRECISION_POS k \<and> 0 \<le> precision \<and> precision \<le> 6
        \<and> TIMESTAMP_PRECISION_POS k + precision \<le> int (length formatted) \<longrightarrow>
      sql_rpad (sql_rpad formatted (nat (TIMESTAMP_PRECISION_POS k + precision)) ''.'')
        (nat (TIMESTAMP_PRECISION_POS k + 6)) ''0''
        = take (nat (TIMESTAMP_PRECISION_POS k + precision)) formatted
            @ replicate (nat (6 - precision)) CHR ''0'')"
proof (intro conjI impI)
  show "normalize_timestamp k value (Timestamp precision rounds)
     = Inr (rpad_expr (rpad_expr (micros_expr value) (TIMESTAMP_PRECISION_POS k + precision) ''.'')
              (TIMESTAMP_PRECISION_POS k + 6) ''0'')"
    by (simp add: rpad_expr_def micros_expr_def sql_call_def sql_cast_def sql_literal_def)
  show "normalize_timestamp k value (TimestampTZ precision rounds)
     = Inr (rpad_expr (rpad_expr (micros_expr value) (TIMESTAMP_PRECISION_POS k + precision) ''.'')
              (TIMESTAMP_PRECISION_POS k + 6) ''0'')"
    by (simp add: rpad_expr_def micros_expr_def sql_call_def sql_cast_def sql_literal_def)
  show "length (sql_rpad (sql_rpad formatted (nat (TIMESTAMP_PRECISION_POS k + precision)) ''.'')
               (nat (TIMESTAMP_PRECISION_POS k + 6)) ''0'')
     = nat (TIMESTAMP_PRECISION_POS k + 6)"
    by (rule length_sql_rpad_single)
next
  assume h: "0 \<le> TIMESTAMP_PRECISION_POS k \<and> 0 \<le> precision \<and> precision \<le> 6
        \<and> TIMESTAMP_PRECISION_POS k + precision \<le> int (length formatted)"
  define n where "n = nat (TIMESTAMP_PRECISION_POS k + precision)"
  define m where "m = nat (TIMESTAMP_PRECISION_POS k + 6)"
  from h have nf: "n \<le> length formatted" and nm: "n \<le> m"
    and d: "m - n = nat (6 - precision)"
    unfolding n_def m_def by linarith+
  have inner: "sql_rpad formatted n ''.'' = take n formatted"
    using nf by (simp add: sql_rpad_single)
  have "sql_rpad (take n formatted) m ''0'' = take n formatted @ replicate (m - n) CHR ''0''"
    using nf nm by (auto simp: sql_rpad_single min_def)
  then show "sql_rpad (sql_rpad formatted (nat (TIMESTAMP_PRECISION_POS k + precision)) ''.'')
        (nat (TIMESTAMP_PRECISION_POS k + 6)) ''0''
        = take (nat (TIMESTAMP_PRECISION_POS k + precision)) formatted
            @ replicate (nat (6 - precision)) CHR ''0''"
    using inner d unfolding n_def m_def by simp
qed

theorem normalize_timestamp_pads_witness:
  "normalize_timestamp \<lparr>MD5_HEXDIGITS = 32, CHECKSUM_HEXDIGITS = 14,
        CHECKSUM_OFFSET = 36028797018963967, TIMESTAMP_PRECISION_POS = 20\<rparr> ''ts'' (Timestamp 3 True)
     = Inr ''RPAD(RPAD(date_format(cast(ts as timestamp(6)), '%Y-%m-%d %H:%i:%S.%f'), 23, '.'), 26, '0')''
   \<and> sql_rpad (sql_rpad ''2022-01-01 12:00:00.123456'' 23 ''.'') 26 ''0''
     = ''2022-01-01 12:00:00.123000''"
proof -
  have zeros: "replicate 3 CHR ''0'' = ''000''"
    by (simp add: numeral_3_eq_3)
  show ?thesis
    using zeros normalize_timestamp_pads
          [of "\<lparr>MD5_HEXDIGITS = 32, CHECKSUM_HEXDIGITS = 14,
                CHECKSUM_OFFSET = 36028797018963967, TIMESTAMP_PRECISION_POS = 20\<rparr>"
              "''ts''" 3 True "''2022-01-01 12:00:00.123456''"]
    by (simp add: rpad_expr_def micros_expr_def sql_call_def sql_cast_def sql_literal_def
        str_int_def str_nat.simps digit_char_def)
qed

section \<open>Properties of table-path normalization\<close>




text \<open>
  C5. Normalization raises, with the \<open>ValueError\<close> whose message carries the joined
  path, exactly when the path has no component; on every other path it returns a pair of
  schema and table. The function is a single pass without a retry: the error is its
  result.
\<close>

theorem normalize_table_path_error_iff:
  "(normalize_table_path db path = Inl (bad_table_path db path)) = (path = [])
   \<and> ((\<exists>e. normalize_table_path db path = Inl e) = (path = []))
   \<and> (path \<noteq> [] \<longrightarrow> (\<exists>schema table. normalize_table_path db path = Inr [schema, table]))"
proof -
  consider (zero) "path = []" | (one) "length path = 1" | (two) "length path = 2"
    | (more) "2 < length path"
    by (cases "length path = 0") (simp, linarith)
  then show ?thesis
  proof cases
    case zero
    then show ?thesis by (simp add: normalize_table_path_def)
  next
    case one
    then show ?thesis by (auto simp: normalize_table_path_def)
  next
    case two
    then obtain schema table where "path = [schema, table]"
      by (cases path; cases "tl path") auto
    then show ?thesis by (simp add: normalize_table_path_def)
  next
    case more
    then show ?thesis by (auto simp: normalize_table_path_def)
  qed
qed

theorem normalize_table_path_error_iff_witness:
  "normalize_table_path \<lparr>name = ''Athena'', self_str = ''Athena()'', default_schema = ''public''\<rparr> []
     = Inl (ValueError (''Athena: Bad table path for Athena(): '' @ [CHR 39, CHR 39] @ ''. Expected form: schema.table''))
   \<and> normalize_table_path \<lparr>name = ''Athena'', self_str = ''Athena()'', default_schema = ''public''\<rparr>
        [''orders''] = Inr [''public'', ''orders'']"
  using normalize_table_path_error_iff
          [of "\<lparr>name = ''Athena'', self_str = ''Athena()'', default_schema = ''public''\<rparr>" "[]"]
        normalize_table_path_error_iff
          [of "\<lparr>name = ''Athena'', self_str = ''Athena()'', default_schema = ''public''\<rparr>" "[''orders'']"]
  by (simp add: normalize_table_path_def bad_table_path_def)

section \<open>Properties of \<open>parse_type\<close>\<close>

lemma between_affixes: "between pre suf (pre @ g @ suf) = Some g"
  by (simp add: between_def suffix_def)

lemma between_other_prefix: "\<not> prefix pre s \<Longrightarrow> between pre suf s = None"
  by (simp add: between_def)

lemma array_text_matches:
  assumes "any_text g"
  shows "match_timestamp (''array('' @ g @ '')'') = None"
    and "match_timestamp_tz (''array('' @ g @ '')'') = None"
    and "match_decimal (''array('' @ g @ '')'') = None"
    and "match_array (''array('' @ g @ '')'') = Some g"
proof -
  show "match_timestamp (''array('' @ g @ '')'') = None"
    by (simp add: match_timestamp_def one_digit_def between_other_prefix)
  show "match_timestamp_tz (''array('' @ g @ '')'') = None"
    by (simp add: match_timestamp_tz_def one_digit_def between_other_prefix)
  show "match_decimal (''array('' @ g @ '')'') = None"
    by (simp add: match_decimal_def between_other_prefix)
  show "match_array (''array('' @ g @ '')'') = Some g"
    using assms between_affixes [where pre = "''array(''" and g = g and suf = "'')''"]
    by (simp add: match_array_def)
qed

lemma struct_text_matches:
  assumes "any_text g"
  shows "match_timestamp (''struct<'' @ g @ ''>'') = None"
    and "match_timestamp_tz (''struct<'' @ g @ ''>'') = None"
    and "match_decimal (''struct<'' @ g @ ''>'') = None"
    and "match_array (''struct<'' @ g @ ''>'') = None"
    and "match_struct (''struct<'' @ g @ ''>'') = Some g"
proof -
  show "match_timestamp (''struct<'' @ g @ ''>'') = None"
    by (simp add: match_timestamp_def one_digit_def between_other_prefix)
  show "match_timestamp_tz (''struct<'' @ g @ ''>'') = None"
    by (simp add: match_timestamp_tz_def one_digit_def between_other_prefix)
  show "match_decimal (''struct<'' @ g @ ''>'') = None"
    by (simp add: match_decimal_def between_other_prefix)
  show "match_array (''struct<'' @ g @ ''>'') = None"
    by (simp add: match_array_def between_other_prefix)
  show "match_struct (''struct<'' @ g @ ''>'') = Some g"
    using assms between_affixes [where pre = "''struct<''" and g = g and suf = "''>''"]
    by (simp add: match_struct_def)
qed

lemmas match_defs =
  match_timestamp_def match_timestamp_tz_def match_decimal_def match_array_def
  match_struct_def match_string_def between_def one_digit_def digits_def any_text_def
  is_digit_def digit_val_def int_of_digits_def suffix_to_prefix


text \<open>
  C6, as the code has it. Nested types are parsed recursively for an array only: for
  \<open>array(T)\<close> the item type is the result of \<open>parse_type\<close> on \<open>T\<close>, an error of that parse
  being the error of the whole. For \<open>struct<F>\<close> the text \<open>F\<close> is split at each comma and
  each piece at each colon, and the pieces are stored as they are: the type of a field
  stays text.
\<close>

theorem parse_type_nested:
  assumes "any_text g"
  shows "parse_type super tpath (info\<lparr>data_type := ''array('' @ g @ '')''\<rparr>)
           = (case parse_type super tpath (info\<lparr>data_type := g\<rparr>) of
                Inl e \<Rightarrow> Inl e
              | Inr item_type \<Rightarrow> Inr (Array item_type))
         \<and> parse_type super tpath (info\<lparr>data_type := ''struct<'' @ g @ ''>''\<rparr>)
           = Inr (Struct (map (split_on CHR '':'') (split_on CHR '','' g)))"
proof
  define a where "a = ''array('' @ g @ '')''"
  note am = array_text_matches [OF assms, folded a_def]
  have "parse_type super tpath (info\<lparr>data_type := a\<rparr>)
           = (case parse_type super tpath (info\<lparr>data_type := g\<rparr>) of
                Inl e \<Rightarrow> Inl e
              | Inr item_type \<Rightarrow> Inr (Array item_type))"
    by (subst parse_type.simps) (simp add: am)
  then show "parse_type super tpath (info\<lparr>data_type := ''array('' @ g @ '')''\<rparr>)
           = (case parse_type super tpath (info\<lparr>data_type := g\<rparr>) of
                Inl e \<Rightarrow> Inl e
              | Inr item_type \<Rightarrow> Inr (Array item_type))"
    unfolding a_def .
next
  define s where "s = ''struct<'' @ g @ ''>''"
  note sm = struct_text_matches [OF assms, folded s_def]
  have "parse_type super tpath (info\<lparr>data_type := s\<rparr>)
           = Inr (Struct (map (split_on CHR '':'') (split_on CHR '','' g)))"
    by (subst parse_type.simps) (simp add: sm)
  then show "parse_type super tpath (info\<lparr>data_type := ''struct<'' @ g @ ''>''\<rparr>)
           = Inr (Struct (map (split_on CHR '':'') (split_on CHR '','' g)))"
    unfolding s_def .
qed

theorem parse_type_nested_witness:
  "any_text ''timestamp(3)''
   \<and> parse_type base_parse_type [''sales'', ''orders'']
     \<lparr>column_name = ''seen'', data_type = ''array(timestamp(3))'',
        datetime_precision = Some 3, numeric_precision = Some 3, numeric_scale = None\<rparr>
     = Inr (Array (Timestamp 3 True))
   \<and> parse_type base_parse_type [''sales'', ''orders'']
     \<lparr>column_name = ''seen'', data_type = ''struct<at:timestamp(3),n:integer>'',
        datetime_precision = Some 3, numeric_precision = Some 3, numeric_scale = None\<rparr>
     = Inr (Struct [[''at'', ''timestamp(3)''], [''n'', ''integer'']])"
proof -
  have t: "any_text ''timestamp(3)''" and u: "any_text ''at:timestamp(3),n:integer''"
    by (simp_all add: any_text_def)
  have inner: "parse_type base_parse_type [''sales'', ''orders'']
     \<lparr>column_name = ''seen'', data_type = ''timestamp(3)'',
        datetime_precision = Some 3, numeric_precision = Some 3, numeric_scale = None\<rparr>
     = Inr (Timestamp 3 True)"
    by (simp add: parse_type.simps match_defs ROUNDS_ON_PREC_LOSS_def)
  show ?thesis
    using t inner
      parse_type_nested [OF t, of base_parse_type "[''sales'', ''orders'']"
        "\<lparr>column_name = ''seen'', data_type = ''x'',
           datetime_precision = Some 3, numeric_precision = Some 3, numeric_scale = None\<rparr>"]
      parse_type_nested [OF u, of base_parse_type "[''sales'', ''orders'']"
        "\<lparr>column_name = ''seen'', data_type = ''x'',
           datetime_precision = Some 3, numeric_precision = Some 3, numeric_scale = None\<rparr>"]
    by simp
qed

text \<open>
  With a base dialect that knows no type \<open>geometry\<close>, an array of it fails, because the
  item type is parsed, and a struct with a field of it succeeds, with the text of the
  field's type stored as text.
\<close>

theorem parse_type_struct_counterexample:
  "parse_type base_parse_type [''sales'', ''orders'']
     \<lparr>column_name = ''shape'', data_type = ''array(geometry)'',
        datetime_precision = Some 3, numeric_precision = Some 3, numeric_scale = None\<rparr>
     = Inl (UnsupportedType ''geometry'')
   \<and> parse_type base_parse_type [''sales'', ''orders'']
     \<lparr>column_name = ''shape'', data_type = ''struct<a:geometry>'',
        datetime_precision = Some 3, numeric_precision = Some 3, numeric_scale = None\<rparr>
     = Inr (Struct [[''a'', ''geometry'']])"
  by (simp add: parse_type.simps match_defs base_parse_type_def TYPE_CLASSES_def)



section \<open>Properties of \<open>query_cursor\<close>\<close>

lemma keyword_not_select:
  assumes "kw \<in> set drained_keywords" and "prefix kw s"
  shows "\<not> prefix ''select'' s"
proof
  assume sel: "prefix ''select'' s"
  then obtain r where s: "s = CHR ''s'' # r"
    by (cases s) auto
  from assms show False
    unfolding s drained_keywords_def by auto
qed

lemma match_keyword_iff:
  "match_keyword sql_code = (\<exists>kw \<in> set drained_keywords. prefix kw (lower sql_code))"
  by (simp add: match_keyword_def list_ex_iff)

text \<open>
  A statement that starts with neither \<open>select\<close> nor one of the five keywords is executed
  and nothing is fetched: \<open>query_cursor\<close> returns \<open>None\<close>.
\<close>

lemma query_cursor_other:
  "query_cursor (\<lambda>q. []) \<lparr>calls = [], pending = []\<rparr> ''update t set x = 1''
     = (Nothing, \<lparr>calls = [Execute ''update t set x = 1''], pending = ([] :: string list)\<rparr>)"
  by (simp add: query_cursor_def execute_def match_keyword_def drained_keywords_def
        lower_def lower_char_def Let_def)

text \<open>
  C7. A statement that starts with \<open>select\<close>, in any case, is executed and all of its
  rows are fetched and returned. A statement that starts with one of \<open>insert\<close>,
  \<open>create\<close>, \<open>truncate\<close>, \<open>drop\<close> and \<open>explain\<close>, in any case, is executed and exactly one
  \<open>fetchone\<close> follows: the statements of that list are never left without a fetch.
\<close>

theorem query_cursor_fetches:
  "(prefix ''select'' (lower sql_code) \<longrightarrow>
      query_cursor engine c sql_code
        = (Rows (engine sql_code),
           c\<lparr>calls := calls c @ [Execute sql_code, Fetchall], pending := []\<rparr>))
   \<and> (kw \<in> set drained_keywords \<and> prefix kw (lower sql_code) \<longrightarrow>
      fst (query_cursor engine c sql_code)
        = Row (case engine sql_code of [] \<Rightarrow> None | r # rs \<Rightarrow> Some r)
      \<and> calls (snd (query_cursor engine c sql_code)) = calls c @ [Execute sql_code, Fetchone]
      \<and> pending (snd (query_cursor engine c sql_code)) = tl (engine sql_code))"
proof (intro conjI impI)
  assume "prefix ''select'' (lower sql_code)"
  then show "query_cursor engine c sql_code
        = (Rows (engine sql_code),
           c\<lparr>calls := calls c @ [Execute sql_code, Fetchall], pending := []\<rparr>)"
    by (simp add: query_cursor_def execute_def fetchall_def Let_def)
next
  assume kw: "kw \<in> set drained_keywords \<and> prefix kw (lower sql_code)"
  then have ns: "\<not> prefix ''select'' (lower sql_code)"
    using keyword_not_select by blast
  from kw have mk: "match_keyword sql_code"
    unfolding match_keyword_iff by blast
  show "fst (query_cursor engine c sql_code)
        = Row (case engine sql_code of [] \<Rightarrow> None | r # rs \<Rightarrow> Some r)"
    using ns mk by (simp add: query_cursor_def execute_def fetchone_def Let_def split: list.splits)
  show "calls (snd (query_cursor engine c sql_code)) = calls c @ [Execute sql_code, Fetchone]"
    using ns mk by (simp add: query_cursor_def execute_def fetchone_def Let_def split: list.splits)
  show "pending (snd (query_cursor engine c sql_code)) = tl (engine sql_code)"
    using ns mk by (simp add: query_cursor_def execute_def fetchone_def Let_def split: list.splits)
qed

theorem query_cursor_fetches_witness:
  "query_cursor (\<lambda>q. [''r1'', ''r2'']) \<lparr>calls = [], pending = []\<rparr> ''SELECT 1''
     = (Rows [''r1'', ''r2''], \<lparr>calls = [Execute ''SELECT 1'', Fetchall], pending = []\<rparr>)
   \<and> fst (query_cursor (\<lambda>q. [''r1'', ''r2'']) \<lparr>calls = [], pending = []\<rparr> ''Drop table t'')
     = Row (Some ''r1'')
   \<and> calls (snd (query_cursor (\<lambda>q. [''r1'', ''r2'']) \<lparr>calls = [], pending = []\<rparr> ''Drop table t''))
     = [Execute ''Drop table t'', Fetchone]
   \<and> pending (snd (query_cursor (\<lambda>q. [''r1'', ''r2'']) \<lparr>calls = [], pending = []\<rparr> ''Drop table t''))
     = [''r2'']"
proof -
  have sel: "prefix ''select'' (lower ''SELECT 1'')"
    by (simp add: lower_def lower_char_def)
  have drp: "''drop'' \<in> set drained_keywords \<and> prefix ''drop'' (lower ''Drop table t'')"
    by (simp add: drained_keywords_def lower_def lower_char_def)
  show ?thesis
    using sel drp
      query_cursor_fetches
        [where sql_code = "''SELECT 1''" and engine = "\<lambda>q. [''r1'', ''r2'']"
           and c = "\<lparr>calls = [], pending = []\<rparr>" and kw = "''drop''"]
      query_cursor_fetches
        [where sql_code = "''Drop table t''" and engine = "\<lambda>q. [''r1'', ''r2'']"
           and c = "\<lparr>calls = [], pending = []\<rparr>" and kw = "''drop''"]
    by simp
qed

section \<open>Properties of the report\<close>


text \<open>
  C9. For every diff result without rows the report has the result \<open>identical\<close>, and
  \<open>rows.exclusive.dataset1\<close>, \<open>rows.exclusive.dataset2\<close> and \<open>rows.diff\<close> are present and
  are empty lists.
\<close>

theorem jsonify_no_difference:
  assumes "diff (info_tree d) = []"
  shows "json_get (jsonify d dbt_model) [''result''] = Some (JStr ''identical'')
       \<and> json_get (jsonify d dbt_model) [''rows'', ''exclusive'', ''dataset1''] = Some (JList [])
       \<and> json_get (jsonify d dbt_model) [''rows'', ''exclusive'', ''dataset2''] = Some (JList [])
       \<and> json_get (jsonify d dbt_model) [''rows'', ''diff''] = Some (JList [])"
  using assms by (simp add: jsonify_def Let_def)

theorem jsonify_no_difference_witness:
  "diff (info_tree test_no_difference) = []
   \<and> jsonify test_no_difference ''model''
     = JObj
         [(''version'', JStr ''1.0.0''),
          (''status'', JStr ''success''),
          (''result'', JStr ''identical''),
          (''model'', JStr ''model''),
          (''dataset1'', JList [JStr ''db'', JStr ''schema'', JStr ''table1'']),
          (''dataset2'', JList [JStr ''db'', JStr ''schema'', JStr ''table2'']),
          (''rows'',
             JObj [(''exclusive'', JObj [(''dataset1'', JList []), (''dataset2'', JList [])]),
                   (''diff'', JList [])]),
          (''summary'', JNull),
          (''columns'', JNull)]
   \<and> json_get (jsonify test_no_difference ''model'') [''rows'', ''exclusive'', ''dataset1'']
     = Some (JList [])"
proof -
  have e: "diff (info_tree test_no_difference) = []"
    by (simp add: test_no_difference_def)
  have r: "jsonify test_no_difference ''model''
     = JObj
         [(''version'', JStr ''1.0.0''),
          (''status'', JStr ''success''),
          (''result'', JStr ''identical''),
          (''model'', JStr ''model''),
          (''dataset1'', JList [JStr ''db'', JStr ''schema'', JStr ''table1'']),
          (''dataset2'', JList [JStr ''db'', JStr ''schema'', JStr ''table2'']),
          (''rows'',
             JObj [(''exclusive'', JObj [(''dataset1'', JList []), (''dataset2'', JList [])]),
                   (''diff'', JList [])]),
          (''summary'', JNull),
          (''columns'', JNull)]"
    by code_simp
  from jsonify_no_difference [OF e, of "''model''"] e r show ?thesis
    by blast
qed

end
